theory Spec2Isabelle
  imports Main "HOL-Library.Word" "HOL-Library.Sublist"
begin

section \<open>Exported etcd services: the collaborators\<close>

text \<open>
  The package \<open>exportedservice\<close> binds a listening socket and publishes its address
  in etcd. Two variants are in the repository: the lease-keyed one
  (\<open>exportedport.go\<close>, etcd clientv3) and a legacy one (go-etcd, no lease).
  Both talk to collaborators that are not part of the repository: the etcd client,
  Go's package \<open>net\<close>, \<open>crypto/tls\<close> and \<open>net/http\<close>. What a collaborator
  answers is a parameter of the model; what the package does with the answer is the model.
\<close>

type_synonym int64 = "64 word"
type_synonym LeaseID = "64 word" \<comment> \<open>clientv3: \<open>type LeaseID int64\<close>\<close>
type_synonym chan = nat

datatype error = Error string

text \<open>A bound listening socket; \<open>Addr\<close> is what \<open>l.Addr().String()\<close> returns.\<close>

record net_Listener =
  fd :: nat
  Addr :: string

text \<open>Every request the package sends to a collaborator, in the order it is sent.\<close>

datatype request =
    ListenReq string string
  | GrantReq int64
  | KeepAliveReq LeaseID
  | PutReq string string LeaseID
  | DeleteReq string
  | AddChildReq string string int64
  | DeleteLegacyReq string bool

fun is_lease_request :: "request \<Rightarrow> bool" where
  "is_lease_request (GrantReq _) = True"
| "is_lease_request (KeepAliveReq _) = True"
| "is_lease_request _ = False"

text \<open>
  The world outside the exporter: the requests sent so far, the keys the store holds
  (value and the lease the entry is attached to, if any), the listening sockets that are
  open, and the keepalive streams a background goroutine is draining.
\<close>

record world =
  trace :: "request list"
  kv :: "string \<rightharpoonup> string \<times> LeaseID option"
  sockets :: "net_Listener list"
  drained :: "chan option list"

definition sent :: "world \<Rightarrow> request \<Rightarrow> world" where
  "sent w r = w\<lparr>trace := trace w @ [r]\<rparr>"

text \<open>
  The etcd clientv3 handle. Each field is the reply of the store to one request, which
  may depend on everything that happened before. \<open>Grant\<close> answers an error or the
  granted lease (only \<open>lease.ID\<close> is read); \<open>KeepAlive\<close> answers Go's pair of a channel
  and an error.
\<close>

record etcd_Client =
  Grant :: "world \<Rightarrow> int64 \<Rightarrow> error + LeaseID"
  KeepAlive :: "world \<Rightarrow> LeaseID \<Rightarrow> chan option \<times> error option"
  Put :: "world \<Rightarrow> string \<Rightarrow> string \<Rightarrow> LeaseID \<Rightarrow> error option"
  Delete :: "world \<Rightarrow> string \<Rightarrow> error option"

text \<open>Go's package \<open>net\<close>, as far as the exporter calls it.\<close>

record net_pkg =
  SplitHostPort :: "string \<Rightarrow> error + string \<times> string"
  JoinHostPort :: "string \<Rightarrow> string \<Rightarrow> string"
  Listen :: "world \<Rightarrow> string \<Rightarrow> string \<Rightarrow> error + net_Listener"

text \<open>\<open>tls.NewListener(l, config)\<close> wraps the listener it is given.\<close>

datatype 'cfg tls_Listener = tls_NewListener "net_Listener option" 'cfg

text \<open>\<open>http.Serve\<close> blocks; when it returns, it returns an error.\<close>

datatype serve_outcome = Returns error | Serves_forever

section \<open>Formatting the lease identifier\<close>

text \<open>
  \<open>fmt.Sprintf("%16x", e.leaseID)\<close> on an \<open>int64\<close>: the magnitude in lower-case
  hexadecimal, a minus sign in front of a negative value, padded with spaces on the left
  to a width of 16.
\<close>

definition hex_digit :: "nat \<Rightarrow> char" where
  "hex_digit d = ''0123456789abcdef'' ! d"

fun hex_digits :: "nat \<Rightarrow> string" where
  "hex_digits n = (if n < 16 then [hex_digit n] else hex_digits (n div 16) @ [hex_digit (n mod 16)])"

declare hex_digits.simps [simp del]

definition fmt_x :: "int64 \<Rightarrow> string" where
  "fmt_x v = (if sint v < 0 then CHR ''-'' # hex_digits (nat (- sint v)) else hex_digits (nat (sint v)))"

definition fmt_16x :: "int64 \<Rightarrow> string" where
  "fmt_16x v = replicate (16 - length (fmt_x v)) CHR '' '' @ fmt_x v"

section \<open>The lease-keyed exporter (exportedport.go)\<close>

record ServiceExporter =
  conn :: etcd_Client
  path :: string
  leaseID :: LeaseID
  keepaliveResponses :: "chan option"

text \<open>
  \<open>initLease\<close>: grant, then keepalive, then remember the lease and start the goroutine that
  drains the keepalive stream. The channel field is assigned before the error of
  \<open>KeepAlive\<close> is looked at.
\<close>

definition initLease :: "ServiceExporter \<Rightarrow> world \<Rightarrow> int64 \<Rightarrow> world \<times> ServiceExporter \<times> error option" where
  "initLease e w ttl =
     (let w1 = sent w (GrantReq ttl) in
      case Grant (conn e) w ttl of
        Inl err \<Rightarrow> (w1, e, Some err)
      | Inr lease_ID \<Rightarrow>
          (let w2 = sent w1 (KeepAliveReq lease_ID);
               (ch, kerr) = KeepAlive (conn e) w1 lease_ID;
               e1 = e\<lparr>keepaliveResponses := ch\<rparr>
           in case kerr of
                Some err \<Rightarrow> (w2, e1, Some err)
              | None \<Rightarrow> (w2\<lparr>drained := drained w2 @ [ch]\<rparr>, e1\<lparr>leaseID := lease_ID\<rparr>, None)))"

text \<open>
  The three constructors. Each returns Go's pair of a pointer and an error; the pointer
  is \<open>None\<close> where the source returns \<open>nil\<close>. A fresh exporter has Go's zero values in
  the fields not named.
\<close>

definition new_ServiceExporter :: "etcd_Client \<Rightarrow> ServiceExporter" where
  "new_ServiceExporter client = \<lparr>conn = client, path = [], leaseID = 0, keepaliveResponses = None\<rparr>"

definition NewExporterFromClient ::
  "world \<Rightarrow> etcd_Client \<Rightarrow> int64 \<Rightarrow> world \<times> ServiceExporter option \<times> error option" where
  "NewExporterFromClient w client ttl =
     (let rv = new_ServiceExporter client;
          (w', rv', err) = initLease rv w ttl
      in (w', Some rv', err))"

definition NewExporter ::
  "(string \<Rightarrow> error + etcd_Client) \<Rightarrow> world \<Rightarrow> string \<Rightarrow> int64 \<Rightarrow>
     world \<times> ServiceExporter option \<times> error option" where
  "NewExporter NewFromURL w etcdURL ttl =
     (case NewFromURL etcdURL of
        Inl err \<Rightarrow> (w, None, Some err)
      | Inr client \<Rightarrow>
          (let self = new_ServiceExporter client;
               (w', self', err) = initLease self w ttl
           in (w', Some self', err)))"

definition NewFromDefault ::
  "(error + etcd_Client) \<Rightarrow> world \<Rightarrow> int64 \<Rightarrow> world \<times> ServiceExporter option \<times> error option" where
  "NewFromDefault DefaultEtcdClient w ttl =
     (case DefaultEtcdClient of
        Inl err \<Rightarrow> (w, None, Some err)
      | Inr client \<Rightarrow>
          (let self = new_ServiceExporter client;
               (w', self', err) = initLease self w ttl
           in (w', Some self', err)))"

definition service_path :: "string \<Rightarrow> LeaseID \<Rightarrow> string" where
  "service_path service lease = ''/ns/service/'' @ service @ ''/'' @ fmt_16x lease"

text \<open>
  The address \<open>NewExportedPort\<close> listens on: the argument itself when it splits into
  host and port, the argument joined with port 0 otherwise.
\<close>

definition listen_address :: "net_pkg \<Rightarrow> string \<Rightarrow> string" where
  "listen_address net ip =
     (case SplitHostPort net ip of
        Inl _ \<Rightarrow> JoinHostPort net ip ''0''
      | Inr _ \<Rightarrow> ip)"

definition NewExportedPort ::
  "net_pkg \<Rightarrow> ServiceExporter \<Rightarrow> world \<Rightarrow> string \<Rightarrow> string \<Rightarrow> string \<Rightarrow>
     world \<times> ServiceExporter \<times> net_Listener option \<times> error option" where
  "NewExportedPort net e w network ip service =
     (let hostport = listen_address net ip;
          w1 = sent w (ListenReq network hostport)
      in case Listen net w network hostport of
           Inl err \<Rightarrow> (w1, e, None, Some err)
         | Inr l \<Rightarrow>
             (let w2 = w1\<lparr>sockets := sockets w1 @ [l]\<rparr>;
                  path' = service_path service (leaseID e);
                  w3 = sent w2 (PutReq path' (Addr l) (leaseID e))
              in case Put (conn e) w2 path' (Addr l) (leaseID e) of
                   Some err \<Rightarrow> (w3, e, None, Some err)
                 | None \<Rightarrow>
                     (w3\<lparr>kv := (kv w3)(path' \<mapsto> (Addr l, Some (leaseID e)))\<rparr>,
                      e\<lparr>path := path'\<rparr>, Some l, None)))"

definition NewExportedTLSPort ::
  "net_pkg \<Rightarrow> ServiceExporter \<Rightarrow> world \<Rightarrow> string \<Rightarrow> string \<Rightarrow> string \<Rightarrow> 'cfg \<Rightarrow>
     world \<times> ServiceExporter \<times> 'cfg tls_Listener option \<times> error option" where
  "NewExportedTLSPort net e w network ip servicename config =
     (case NewExportedPort net e w network ip servicename of
        (w', e', l, Some err) \<Rightarrow> (w', e', None, Some err)
      | (w', e', l, None) \<Rightarrow> (w', e', Some (tls_NewListener l config), None))"

text \<open>
  \<open>ListenAndServeNamedHTTP\<close> hands the listener to \<open>http.Serve\<close>, whose outcome is a
  parameter. Go's \<open>Serve\<close> closes the listener it was given when it returns.
\<close>

definition ListenAndServeNamedHTTP ::
  "net_pkg \<Rightarrow> (world \<Rightarrow> net_Listener option \<Rightarrow> 'h \<Rightarrow> serve_outcome) \<Rightarrow>
     ServiceExporter \<Rightarrow> world \<Rightarrow> string \<Rightarrow> string \<Rightarrow> 'h \<Rightarrow>
     world \<times> ServiceExporter \<times> serve_outcome" where
  "ListenAndServeNamedHTTP net http_Serve e w servicename addr handler =
     (case NewExportedPort net e w ''tcp'' addr servicename of
        (w', e', l, Some err) \<Rightarrow> (w', e', Returns err)
      | (w', e', l, None) \<Rightarrow>
          (case http_Serve w' l handler of
             Returns err \<Rightarrow> (w'\<lparr>sockets := filter (\<lambda>s. Some s \<noteq> l) (sockets w')\<rparr>, e', Returns err)
           | Serves_forever \<Rightarrow> (w', e', Serves_forever)))"

definition UnexportPort :: "ServiceExporter \<Rightarrow> world \<Rightarrow> world \<times> ServiceExporter \<times> error option" where
  "UnexportPort e w =
     (if length (path e) = 0 then (w, e, None)
      else (let w1 = sent w (DeleteReq (path e))
            in case Delete (conn e) w (path e) of
                 Some err \<Rightarrow> (w1, e, Some err)
               | None \<Rightarrow> (w1\<lparr>kv := (kv w1)(path e := None)\<rparr>, e, None)))"

section \<open>The legacy exporter (go-etcd, no lease)\<close>

record etcd_Node =
  Key :: string

record etcd_Response =
  Node :: "etcd_Node option"

record etcd_Client_legacy =
  AddChild :: "world \<Rightarrow> string \<Rightarrow> string \<Rightarrow> int64 \<Rightarrow> error + etcd_Response"
  Delete_legacy :: "world \<Rightarrow> string \<Rightarrow> bool \<Rightarrow> error option"

record ServiceExporter_legacy =
  conn_legacy :: etcd_Client_legacy
  path_legacy :: string

definition NewExporter_legacy :: "(string list \<Rightarrow> etcd_Client_legacy) \<Rightarrow> string list \<Rightarrow> ServiceExporter_legacy" where
  "NewExporter_legacy NewClient servers = \<lparr>conn_legacy = NewClient servers, path_legacy = []\<rparr>"

text \<open>
  The legacy export always asks for port 0: the host is what \<open>SplitHostPort\<close> returns,
  or the argument itself when it does not split.
\<close>

definition listen_address_legacy :: "net_pkg \<Rightarrow> string \<Rightarrow> string" where
  "listen_address_legacy net ip =
     JoinHostPort net (case SplitHostPort net ip of
                         Inl _ \<Rightarrow> ip
                       | Inr (h, _) \<Rightarrow> h) ''0''"

text \<open>
  The legacy export writes the string it asked for. The store picks the name of the
  child; the entry is recorded under the key the reply reports.
\<close>

definition NewExportedPort_legacy ::
  "net_pkg \<Rightarrow> ServiceExporter_legacy \<Rightarrow> world \<Rightarrow> string \<Rightarrow> string \<Rightarrow> string \<Rightarrow>
     world \<times> ServiceExporter_legacy \<times> net_Listener option \<times> error option" where
  "NewExportedPort_legacy net self w network ip servicename =
     (let path' = ''/ns/service/'' @ servicename;
          hostport = listen_address_legacy net ip;
          w1 = sent w (ListenReq network hostport)
      in case Listen net w network hostport of
           Inl err \<Rightarrow> (w1, self, None, Some err)
         | Inr l \<Rightarrow>
             (let w2 = w1\<lparr>sockets := sockets w1 @ [l]\<rparr>;
                  w3 = sent w2 (AddChildReq path' hostport 0)
              in case AddChild (conn_legacy self) w2 path' hostport 0 of
                   Inl err \<Rightarrow> (w3, self, None, Some err)
                 | Inr resp \<Rightarrow>
                     (case Node resp of
                        Some n \<Rightarrow>
                          (w3\<lparr>kv := (kv w3)(Key n \<mapsto> (hostport, None))\<rparr>,
                           self\<lparr>path_legacy := Key n\<rparr>, Some l, None)
                      | None \<Rightarrow> (w3, self, Some l, None))))"

definition UnexportPort_legacy ::
  "ServiceExporter_legacy \<Rightarrow> world \<Rightarrow> world \<times> ServiceExporter_legacy \<times> error option" where
  "UnexportPort_legacy self w =
     (if length (path_legacy self) = 0 then (w, self, None)
      else (let w1 = sent w (DeleteLegacyReq (path_legacy self) False)
            in case Delete_legacy (conn_legacy self) w (path_legacy self) False of
                 Some err \<Rightarrow> (w1, self, Some err)
               | None \<Rightarrow> (w1\<lparr>kv := (kv w1)(path_legacy self := None)\<rparr>, self, None)))"

section \<open>Sequences of operations on one exporter\<close>

text \<open>
  What a caller can do with an exporter once it has one: export a port, export a TLS
  port, serve HTTP, unexport. \<open>perform\<close> runs one of them and says whether the call
  returned; \<open>run_ops\<close> runs a list of them in order and stops at a call that does
  not return.
\<close>

datatype ('cfg, 'h) operation =
    Export string string string
  | ExportTLS string string string 'cfg
  | ServeHTTP string string 'h
  | Unexport

fun perform ::
  "net_pkg \<Rightarrow> (world \<Rightarrow> net_Listener option \<Rightarrow> 'h \<Rightarrow> serve_outcome) \<Rightarrow>
     ('cfg, 'h) operation \<Rightarrow> ServiceExporter \<Rightarrow> world \<Rightarrow> world \<times> ServiceExporter \<times> bool" where
  "perform net srv (Export network ip service) e w =
     (case NewExportedPort net e w network ip service of (w', e', _) \<Rightarrow> (w', e', True))"
| "perform net srv (ExportTLS network ip service config) e w =
     (case NewExportedTLSPort net e w network ip service config of (w', e', _) \<Rightarrow> (w', e', True))"
| "perform net srv (ServeHTTP servicename addr handler) e w =
     (case ListenAndServeNamedHTTP net srv e w servicename addr handler of
        (w', e', Returns _) \<Rightarrow> (w', e', True)
      | (w', e', Serves_forever) \<Rightarrow> (w', e', False))"
| "perform net srv Unexport e w =
     (case UnexportPort e w of (w', e', _) \<Rightarrow> (w', e', True))"

fun run_ops ::
  "net_pkg \<Rightarrow> (world \<Rightarrow> net_Listener option \<Rightarrow> 'h \<Rightarrow> serve_outcome) \<Rightarrow>
     ServiceExporter \<Rightarrow> world \<Rightarrow> ('cfg, 'h) operation list \<Rightarrow> world \<times> ServiceExporter" where
  "run_ops net srv e w [] = (w, e)"
| "run_ops net srv e w (x # xs) =
     (case perform net srv x e w of
        (w', e', True) \<Rightarrow> run_ops net srv e' w' xs
      | (w', e', False) \<Rightarrow> (w', e'))"

text \<open>The requests sent between two worlds, and the lease every \<open>Put\<close> among them is attached to.\<close>

definition new_requests :: "world \<Rightarrow> world \<Rightarrow> request list" where
  "new_requests w w' = drop (length (trace w)) (trace w')"

fun put_leases :: "request list \<Rightarrow> LeaseID list" where
  "put_leases [] = []"
| "put_leases (PutReq k v l # rs) = l # put_leases rs"
| "put_leases (_ # rs) = put_leases rs"

section \<open>Example collaborators\<close>

text \<open>
  Go's \<open>net.SplitHostPort\<close> and \<open>net.JoinHostPort\<close>, and a platform with three free
  addresses, to run the exporter on concrete inputs.
\<close>

fun IndexByte :: "string \<Rightarrow> char \<Rightarrow> nat option" where
  "IndexByte [] c = None"
| "IndexByte (x # xs) c = (if x = c then Some 0 else map_option Suc (IndexByte xs c))"

definition LastIndexByte :: "string \<Rightarrow> char \<Rightarrow> nat option" where
  "LastIndexByte s c =
     (case IndexByte (rev s) c of None \<Rightarrow> None | Some i \<Rightarrow> Some (length s - 1 - i))"

definition go_SplitHostPort_tail :: "string \<Rightarrow> string \<Rightarrow> nat \<Rightarrow> nat \<Rightarrow> nat \<Rightarrow> error + string \<times> string" where
  "go_SplitHostPort_tail hostport host i j k =
     (if IndexByte (drop j hostport) CHR ''['' \<noteq> None then Inl (Error ''unexpected '[' in address'')
      else if IndexByte (drop k hostport) CHR '']'' \<noteq> None then Inl (Error ''unexpected ']' in address'')
      else Inr (host, drop (i + 1) hostport))"

definition go_SplitHostPort :: "string \<Rightarrow> error + string \<times> string" where
  "go_SplitHostPort hostport =
     (case LastIndexByte hostport CHR '':'' of
        None \<Rightarrow> Inl (Error ''missing port in address'')
      | Some i \<Rightarrow>
          if take 1 hostport = ''['' then
            (case IndexByte hostport CHR '']'' of
               None \<Rightarrow> Inl (Error ''missing ']' in address'')
             | Some end \<Rightarrow>
                 if end + 1 = length hostport then Inl (Error ''missing port in address'')
                 else if end + 1 = i then
                   go_SplitHostPort_tail hostport (take (end - 1) (drop 1 hostport)) i 1 (end + 1)
                 else if hostport ! (end + 1) = CHR '':'' then Inl (Error ''too many colons in address'')
                 else Inl (Error ''missing port in address''))
          else
            (let host = take i hostport
             in if IndexByte host CHR '':'' \<noteq> None then Inl (Error ''too many colons in address'')
                else go_SplitHostPort_tail hostport host i 0 0))"

definition go_JoinHostPort :: "string \<Rightarrow> string \<Rightarrow> string" where
  "go_JoinHostPort host port =
     (if IndexByte host CHR '':'' \<noteq> None then ''['' @ host @ '']:'' @ port
      else host @ '':'' @ port)"

definition example_Listen :: "world \<Rightarrow> string \<Rightarrow> string \<Rightarrow> error + net_Listener" where
  "example_Listen w network hostport =
     (if network \<noteq> ''tcp'' then Inl (Error ''unknown network'')
      else if hostport = ''127.0.0.1:9000'' then
        (if ''127.0.0.1:9000'' \<in> set (map Addr (sockets w)) then Inl (Error ''address already in use'')
         else Inr \<lparr>fd = length (sockets w), Addr = ''127.0.0.1:9000''\<rparr>)
      else if hostport = ''127.0.0.1:0'' then
        (if ''127.0.0.1:49152'' \<in> set (map Addr (sockets w))
         then Inr \<lparr>fd = length (sockets w), Addr = ''127.0.0.1:49153''\<rparr>
         else Inr \<lparr>fd = length (sockets w), Addr = ''127.0.0.1:49152''\<rparr>)
      else Inl (Error ''no such host''))"

definition example_net :: net_pkg where
  "example_net = \<lparr>SplitHostPort = go_SplitHostPort, JoinHostPort = go_JoinHostPort, Listen = example_Listen\<rparr>"

definition empty_world :: world where
  "empty_world = \<lparr>trace = [], kv = Map.empty, sockets = [], drained = []\<rparr>"

text \<open>A store that answers every request, one that answers none, and ones that fail at one request.\<close>

definition store_ok :: etcd_Client where
  "store_ok = \<lparr>Grant = (\<lambda>w ttl. Inr 42), KeepAlive = (\<lambda>w l. (Some 0, None)),
               Put = (\<lambda>w k v l. None), Delete = (\<lambda>w k. None)\<rparr>"

definition store_down :: etcd_Client where
  "store_down = \<lparr>Grant = (\<lambda>w ttl. Inl (Error ''context deadline exceeded'')),
                 KeepAlive = (\<lambda>w l. (None, Some (Error ''context deadline exceeded''))),
                 Put = (\<lambda>w k v l. Some (Error ''context deadline exceeded'')),
                 Delete = (\<lambda>w k. Some (Error ''context deadline exceeded''))\<rparr>"

definition store_no_keepalive :: etcd_Client where
  "store_no_keepalive = store_ok\<lparr>KeepAlive := (\<lambda>w l. (None, Some (Error ''context canceled'')))\<rparr>"

definition store_no_put :: etcd_Client where
  "store_no_put = store_ok\<lparr>Put := (\<lambda>w k v l. Some (Error ''etcdserver: requested lease not found''))\<rparr>"

definition leased_exporter :: "etcd_Client \<Rightarrow> ServiceExporter" where
  "leased_exporter client = \<lparr>conn = client, path = [], leaseID = 42, keepaliveResponses = Some 0\<rparr>"

definition legacy_ok :: etcd_Client_legacy where
  "legacy_ok = \<lparr>AddChild = (\<lambda>w dir v ttl. Inr \<lparr>Node = Some \<lparr>Key = dir @ ''/1''\<rparr>\<rparr>),
                Delete_legacy = (\<lambda>w k r. None)\<rparr>"

definition legacy_down :: etcd_Client_legacy where
  "legacy_down = \<lparr>AddChild = (\<lambda>w dir v ttl. Inl (Error ''connection refused'')),
                  Delete_legacy = (\<lambda>w k r. Some (Error ''connection refused''))\<rparr>"

section \<open>Facts about the model\<close>

lemma sent_simps [simp]:
  "trace (sent w r) = trace w @ [r]" "kv (sent w r) = kv w"
  "sockets (sent w r) = sockets w" "drained (sent w r) = drained w"
  by (simp_all add: sent_def)

lemma fmt_16x_42: "fmt_16x 42 = ''              2a''"
  by code_simp

lemma split_example_bare: "go_SplitHostPort ''127.0.0.1'' = Inl (Error ''missing port in address'')"
  by code_simp

lemma split_example_pair: "go_SplitHostPort ''127.0.0.1:9000'' = Inr (''127.0.0.1'', ''9000'')"
  by code_simp

lemma join_example: "go_JoinHostPort ''127.0.0.1'' ''0'' = ''127.0.0.1:0''"
  by code_simp

lemma store_ok_simps [simp]:
  "Grant store_ok w ttl = Inr 42" "KeepAlive store_ok w l = (Some 0, None)"
  "Put store_ok w k v l = None" "Delete store_ok w k = None"
  by (simp_all add: store_ok_def)

lemma legacy_ok_simps [simp]:
  "AddChild legacy_ok w d v t = Inr \<lparr>Node = Some \<lparr>Key = d @ ''/1''\<rparr>\<rparr>"
  "Delete_legacy legacy_ok w k r = None"
  by (simp_all add: legacy_ok_def)

lemmas example_simps =
  example_net_def example_Listen_def empty_world_def store_ok_def store_down_def
  store_no_keepalive_def store_no_put_def leased_exporter_def legacy_ok_def legacy_down_def
  split_example_bare split_example_pair join_example fmt_16x_42 service_path_def
  new_ServiceExporter_def new_requests_def listen_address_def listen_address_legacy_def

section \<open>Creating an exporter\<close>

text \<open>
  Claim C1: when the lease grant or the keepalive setup fails, the caller gets an error
  and no exporter handle. The constructors end in \<open>return self, self.initLease(ctx, ttl)\<close>:
  with a store that refuses the grant, or one that grants and then refuses the keepalive
  stream, each of them returns the error together with a handle that is not nil, whose
  lease is the zero value. Only a failure to build the client returns nil.
\<close>

theorem constructors_return_handle_with_error:
  "snd (NewExporterFromClient empty_world store_down 10) =
     (Some (new_ServiceExporter store_down), Some (Error ''context deadline exceeded''))
   \<and> snd (NewExporter (\<lambda>url. Inr store_no_keepalive) empty_world ''http://127.0.0.1:2379'' 10) =
     (Some (new_ServiceExporter store_no_keepalive), Some (Error ''context canceled''))
   \<and> snd (NewFromDefault (Inr store_down) empty_world 10) =
     (Some (new_ServiceExporter store_down), Some (Error ''context deadline exceeded''))
   \<and> NewExporter (\<lambda>url. Inl (Error ''invalid URL'')) empty_world ''::'' 10 =
     (empty_world, None, Some (Error ''invalid URL''))"
  by (simp add: NewExporterFromClient_def NewExporter_def NewFromDefault_def initLease_def
        new_ServiceExporter_def store_down_def store_no_keepalive_def store_ok_def)

text \<open>
  Claim C2, as the code has it: \<open>initLease\<close> does not look at the TTL. Whatever the TTL
  is, the first thing it does is send a grant request with that TTL to the store; it
  succeeds exactly when the store grants the lease and opens the keepalive stream, and
  the lease identifier of the exporter is then the one the store granted.
\<close>

theorem initLease_forwards_ttl:
  assumes "initLease e w ttl = (w', e', r)"
  shows "take (Suc (length (trace w))) (trace w') = trace w @ [GrantReq ttl]
     \<and> (r = None \<longleftrightarrow>
          (\<exists>i ch. Grant (conn e) w ttl = Inr i \<and> KeepAlive (conn e) (sent w (GrantReq ttl)) i = (ch, None)))
     \<and> (r = None \<longrightarrow> Grant (conn e) w ttl = Inr (leaseID e'))"
  using assms by (auto simp: initLease_def Let_def split: sum.splits prod.splits option.splits)

theorem initLease_forwards_ttl_witness:
  "initLease (new_ServiceExporter store_ok) empty_world 3 =
     (\<lparr>trace = [GrantReq 3, KeepAliveReq 42], kv = Map.empty, sockets = [], drained = [Some 0]\<rparr>,
      \<lparr>conn = store_ok, path = [], leaseID = 42, keepaliveResponses = Some 0\<rparr>, None)
   \<and> Grant store_ok empty_world 3 = Inr 42"
proof -
  have h: "initLease (new_ServiceExporter store_ok) empty_world 3 =
     (\<lparr>trace = [GrantReq 3, KeepAliveReq 42], kv = Map.empty, sockets = [], drained = [Some 0]\<rparr>,
      \<lparr>conn = store_ok, path = [], leaseID = 42, keepaliveResponses = Some 0\<rparr>, None)"
    by (simp add: initLease_def sent_def new_ServiceExporter_def store_ok_def empty_world_def)
  show ?thesis using h initLease_forwards_ttl [OF h] by (simp add: new_ServiceExporter_def)
qed

text \<open>
  A TTL of one second is below five; against a store that answers, initialization
  succeeds, and against one that does not, the grant request has been sent all the same.
\<close>

theorem small_ttl_counterexample:
  "sint (1 :: int64) < 5
   \<and> snd (snd (NewExporterFromClient empty_world store_ok 1)) = None
   \<and> trace (fst (NewExporterFromClient empty_world store_ok 1)) = [GrantReq 1, KeepAliveReq 42]
   \<and> trace (fst (NewExporterFromClient empty_world store_down 1)) = [GrantReq 1]"
  by (simp add: NewExporterFromClient_def initLease_def new_ServiceExporter_def
        store_ok_def store_down_def empty_world_def)

section \<open>Exporting a port\<close>

lemma new_requests_append [simp]:
  "trace w' = trace w @ rs \<Longrightarrow> new_requests w w' = rs"
  by (simp add: new_requests_def)

lemma empty_world_simps [simp]:
  "trace empty_world = []" "kv empty_world = Map.empty"
  "sockets empty_world = []" "drained empty_world = []"
  by (simp_all add: empty_world_def)

lemma example_net_simps [simp]:
  "SplitHostPort example_net = go_SplitHostPort" "JoinHostPort example_net = go_JoinHostPort"
  "Listen example_net = example_Listen"
  by (simp_all add: example_net_def)

lemma leased_exporter_simps [simp]:
  "conn (leased_exporter c) = c" "path (leased_exporter c) = []"
  "leaseID (leased_exporter c) = 42" "keepaliveResponses (leased_exporter c) = Some 0"
  by (simp_all add: leased_exporter_def)

text \<open>What a successful export leaves behind.\<close>

lemma NewExportedPort_success:
  assumes "NewExportedPort net e w network ip service = (w', e', r, None)"
  obtains l where
    "Listen net w network (listen_address net ip) = Inr l"
    "Put (conn e) ((sent w (ListenReq network (listen_address net ip)))\<lparr>sockets := sockets w @ [l]\<rparr>)
       (service_path service (leaseID e)) (Addr l) (leaseID e) = None"
    "r = Some l"
    "e' = e\<lparr>path := service_path service (leaseID e)\<rparr>"
    "trace w' = trace w @ [ListenReq network (listen_address net ip),
                           PutReq (service_path service (leaseID e)) (Addr l) (leaseID e)]"
    "kv w' = (kv w)(service_path service (leaseID e) \<mapsto> (Addr l, Some (leaseID e)))"
    "sockets w' = sockets w @ [l]"
    "drained w' = drained w"
  using assms
  by (auto simp: NewExportedPort_def Let_def split: sum.splits option.splits)

text \<open>The two exports the examples below run: a bare host and a host with a port.\<close>

lemma example_export_bare:
  "NewExportedPort example_net (leased_exporter store_ok) empty_world ''tcp'' ''127.0.0.1'' ''foo'' =
     (\<lparr>trace = [ListenReq ''tcp'' ''127.0.0.1:0'',
                PutReq ''/ns/service/foo/              2a'' ''127.0.0.1:49152'' 42],
       kv = [''/ns/service/foo/              2a'' \<mapsto> (''127.0.0.1:49152'', Some 42)],
       sockets = [\<lparr>fd = 0, Addr = ''127.0.0.1:49152''\<rparr>], drained = []\<rparr>,
      \<lparr>conn = store_ok, path = ''/ns/service/foo/              2a'', leaseID = 42,
       keepaliveResponses = Some 0\<rparr>,
      Some \<lparr>fd = 0, Addr = ''127.0.0.1:49152''\<rparr>, None)"
  by (simp add: NewExportedPort_def Let_def sent_def example_simps)

lemma example_export_pair:
  "NewExportedPort example_net (leased_exporter store_ok) empty_world ''tcp'' ''127.0.0.1:9000'' ''foo'' =
     (\<lparr>trace = [ListenReq ''tcp'' ''127.0.0.1:9000'',
                PutReq ''/ns/service/foo/              2a'' ''127.0.0.1:9000'' 42],
       kv = [''/ns/service/foo/              2a'' \<mapsto> (''127.0.0.1:9000'', Some 42)],
       sockets = [\<lparr>fd = 0, Addr = ''127.0.0.1:9000''\<rparr>], drained = []\<rparr>,
      \<lparr>conn = store_ok, path = ''/ns/service/foo/              2a'', leaseID = 42,
       keepaliveResponses = Some 0\<rparr>,
      Some \<lparr>fd = 0, Addr = ''127.0.0.1:9000''\<rparr>, None)"
  by (simp add: NewExportedPort_def Let_def sent_def example_simps)

lemma example_export_legacy_bare:
  "NewExportedPort_legacy example_net \<lparr>conn_legacy = legacy_ok, path_legacy = []\<rparr> empty_world
       ''tcp'' ''127.0.0.1'' ''foo'' =
     (\<lparr>trace = [ListenReq ''tcp'' ''127.0.0.1:0'', AddChildReq ''/ns/service/foo'' ''127.0.0.1:0'' 0],
       kv = [''/ns/service/foo/1'' \<mapsto> (''127.0.0.1:0'', None)],
       sockets = [\<lparr>fd = 0, Addr = ''127.0.0.1:49152''\<rparr>], drained = []\<rparr>,
      \<lparr>conn_legacy = legacy_ok, path_legacy = ''/ns/service/foo/1''\<rparr>,
      Some \<lparr>fd = 0, Addr = ''127.0.0.1:49152''\<rparr>, None)"
  by (simp add: NewExportedPort_legacy_def Let_def sent_def example_simps)

lemma example_export_legacy_pair:
  "NewExportedPort_legacy example_net \<lparr>conn_legacy = legacy_ok, path_legacy = []\<rparr> empty_world
       ''tcp'' ''127.0.0.1:9000'' ''foo'' =
     (\<lparr>trace = [ListenReq ''tcp'' ''127.0.0.1:0'', AddChildReq ''/ns/service/foo'' ''127.0.0.1:0'' 0],
       kv = [''/ns/service/foo/1'' \<mapsto> (''127.0.0.1:0'', None)],
       sockets = [\<lparr>fd = 0, Addr = ''127.0.0.1:49152''\<rparr>], drained = []\<rparr>,
      \<lparr>conn_legacy = legacy_ok, path_legacy = ''/ns/service/foo/1''\<rparr>,
      Some \<lparr>fd = 0, Addr = ''127.0.0.1:49152''\<rparr>, None)"
  by (simp add: NewExportedPort_legacy_def Let_def sent_def example_simps)

text \<open>
  Claim C3, as the code has it. In the lease-keyed variant an address that splits into
  host and port is the address the platform is asked to listen on, unchanged; an address
  that does not split is joined with port 0; and a successful export publishes the
  address of the listener the platform returned for that request. In the legacy variant
  the port of the argument is dropped: the platform is always asked for port 0 on the
  host.
\<close>

theorem export_listen_address:
  "(SplitHostPort net ip = Inr hp \<longrightarrow>
      take 1 (new_requests w (fst (NewExportedPort net e w network ip service))) = [ListenReq network ip])
   \<and> (SplitHostPort net ip = Inl x \<longrightarrow>
      take 1 (new_requests w (fst (NewExportedPort net e w network ip service))) =
        [ListenReq network (JoinHostPort net ip ''0'')])
   \<and> (NewExportedPort net e w network ip service = (w', e', r, None) \<longrightarrow>
        (\<exists>l. Listen net w network (listen_address net ip) = Inr l \<and> r = Some l
           \<and> new_requests w w' =
               [ListenReq network (listen_address net ip), PutReq (path e') (Addr l) (leaseID e)]))
   \<and> (SplitHostPort net ip = Inr (h, p) \<longrightarrow>
      take 1 (new_requests w (fst (NewExportedPort_legacy net self w network ip service))) =
        [ListenReq network (JoinHostPort net h ''0'')])
   \<and> (SplitHostPort net ip = Inl x \<longrightarrow>
      take 1 (new_requests w (fst (NewExportedPort_legacy net self w network ip service))) =
        [ListenReq network (JoinHostPort net ip ''0'')])"
proof (intro conjI impI)
  assume "SplitHostPort net ip = Inr hp"
  then show "take 1 (new_requests w (fst (NewExportedPort net e w network ip service))) = [ListenReq network ip]"
    by (auto simp: NewExportedPort_def listen_address_def new_requests_def Let_def
          split: sum.splits option.splits)
next
  assume "SplitHostPort net ip = Inl x"
  then show "take 1 (new_requests w (fst (NewExportedPort net e w network ip service))) =
        [ListenReq network (JoinHostPort net ip ''0'')]"
    by (auto simp: NewExportedPort_def listen_address_def new_requests_def Let_def
          split: sum.splits option.splits)
next
  assume a: "NewExportedPort net e w network ip service = (w', e', r, None)"
  show "\<exists>l. Listen net w network (listen_address net ip) = Inr l \<and> r = Some l
           \<and> new_requests w w' =
               [ListenReq network (listen_address net ip), PutReq (path e') (Addr l) (leaseID e)]"
    by (rule NewExportedPort_success [OF a]) simp
next
  assume "SplitHostPort net ip = Inr (h, p)"
  then show "take 1 (new_requests w (fst (NewExportedPort_legacy net self w network ip service))) =
        [ListenReq network (JoinHostPort net h ''0'')]"
    by (auto simp: NewExportedPort_legacy_def listen_address_legacy_def new_requests_def Let_def
          split: sum.splits option.splits)
next
  assume "SplitHostPort net ip = Inl x"
  then show "take 1 (new_requests w (fst (NewExportedPort_legacy net self w network ip service))) =
        [ListenReq network (JoinHostPort net ip ''0'')]"
    by (auto simp: NewExportedPort_legacy_def listen_address_legacy_def new_requests_def Let_def
          split: sum.splits option.splits)
qed

theorem export_listen_address_witness:
  "SplitHostPort example_net ''127.0.0.1:9000'' = Inr (''127.0.0.1'', ''9000'')
   \<and> take 1 (new_requests empty_world (fst (NewExportedPort example_net (leased_exporter store_ok)
        empty_world ''tcp'' ''127.0.0.1:9000'' ''foo''))) = [ListenReq ''tcp'' ''127.0.0.1:9000'']
   \<and> take 1 (new_requests empty_world (fst (NewExportedPort_legacy example_net
        \<lparr>conn_legacy = legacy_ok, path_legacy = []\<rparr>
        empty_world ''tcp'' ''127.0.0.1:9000'' ''foo''))) = [ListenReq ''tcp'' ''127.0.0.1:0'']
   \<and> SplitHostPort example_net ''127.0.0.1'' = Inl (Error ''missing port in address'')
   \<and> take 1 (new_requests empty_world (fst (NewExportedPort example_net (leased_exporter store_ok)
        empty_world ''tcp'' ''127.0.0.1'' ''foo''))) = [ListenReq ''tcp'' ''127.0.0.1:0'']
   \<and> take 1 (new_requests empty_world (fst (NewExportedPort_legacy example_net
        \<lparr>conn_legacy = legacy_ok, path_legacy = []\<rparr>
        empty_world ''tcp'' ''127.0.0.1'' ''foo''))) = [ListenReq ''tcp'' ''127.0.0.1:0'']
   \<and> snd (snd (snd (NewExportedPort example_net (leased_exporter store_ok)
        empty_world ''tcp'' ''127.0.0.1'' ''foo''))) = None
   \<and> Listen example_net empty_world ''tcp'' (listen_address example_net ''127.0.0.1'') =
        Inr \<lparr>fd = 0, Addr = ''127.0.0.1:49152''\<rparr>"
proof -
  have p: "SplitHostPort example_net ''127.0.0.1:9000'' = Inr (''127.0.0.1'', ''9000'')"
    by (simp add: split_example_pair)
  have b: "SplitHostPort example_net ''127.0.0.1'' = Inl (Error ''missing port in address'')"
    by (simp add: split_example_bare)
  note t1 = export_listen_address [where net = example_net and ip = "''127.0.0.1:9000''"
      and hp = "(''127.0.0.1'', ''9000'')" and h = "''127.0.0.1''" and p = "''9000''"
      and w = empty_world and e = "leased_exporter store_ok" and network = "''tcp''"
      and service = "''foo''" and self = "\<lparr>conn_legacy = legacy_ok, path_legacy = []\<rparr>"]
  note t2 = export_listen_address [where net = example_net and ip = "''127.0.0.1''"
      and x = "Error ''missing port in address''"
      and w = empty_world and e = "leased_exporter store_ok" and network = "''tcp''"
      and service = "''foo''" and self = "\<lparr>conn_legacy = legacy_ok, path_legacy = []\<rparr>"]
  show ?thesis
    using p b t1 t2
    by (simp add: example_export_bare example_export_pair example_export_legacy_bare
          example_export_legacy_pair new_requests_def example_Listen_def
          listen_address_def split_example_bare split_example_pair join_example)
qed

text \<open>
  With the legacy variant, the address \<open>127.0.0.1:9000\<close> splits into host and port, and
  the platform is asked for port 0 all the same: the listener is bound to another port.
\<close>

theorem legacy_port_overridden_counterexample:
  "go_SplitHostPort ''127.0.0.1:9000'' = Inr (''127.0.0.1'', ''9000'')
   \<and> new_requests empty_world (fst (NewExportedPort_legacy example_net
        \<lparr>conn_legacy = legacy_ok, path_legacy = []\<rparr> empty_world ''tcp'' ''127.0.0.1:9000'' ''foo'')) =
       [ListenReq ''tcp'' ''127.0.0.1:0'', AddChildReq ''/ns/service/foo'' ''127.0.0.1:0'' 0]
   \<and> fst (snd (snd (NewExportedPort_legacy example_net
        \<lparr>conn_legacy = legacy_ok, path_legacy = []\<rparr> empty_world ''tcp'' ''127.0.0.1:9000'' ''foo''))) =
       Some \<lparr>fd = 0, Addr = ''127.0.0.1:49152''\<rparr>"
  by (simp add: example_export_legacy_pair split_example_pair new_requests_def)

text \<open>
  Claim C4, as the code has it. In the lease-keyed variant a successful export writes
  exactly the address of the listener that was bound, so the value ends in \<open>:0\<close> only
  if the address the platform reports does, and the write and the entry carry the lease of
  the exporter. The legacy variant has no lease: its write is an \<open>AddChild\<close> with TTL 0,
  and an entry it creates is attached to no lease.
\<close>

theorem export_publishes_listener_address:
  "(NewExportedPort net e w network ip service = (w', e', r, None) \<longrightarrow>
      (\<exists>l. r = Some l \<and> Listen net w network (listen_address net ip) = Inr l
         \<and> l \<in> set (sockets w')
         \<and> last (trace w') = PutReq (path e') (Addr l) (leaseID e)
         \<and> kv w' (path e') = Some (Addr l, Some (leaseID e))
         \<and> (suffix '':0'' (fst (the (kv w' (path e')))) \<longrightarrow> suffix '':0'' (Addr l))))
   \<and> (NewExportedPort_legacy net self v network ip service = (v', self', r', None) \<longrightarrow>
      (\<exists>dir val. last (trace v') = AddChildReq dir val 0)
      \<and> (\<forall>k. kv v' k \<noteq> kv v k \<longrightarrow> (\<exists>val. kv v' k = Some (val, None))))"
proof (intro conjI impI)
  assume a: "NewExportedPort net e w network ip service = (w', e', r, None)"
  show "\<exists>l. r = Some l \<and> Listen net w network (listen_address net ip) = Inr l
         \<and> l \<in> set (sockets w')
         \<and> last (trace w') = PutReq (path e') (Addr l) (leaseID e)
         \<and> kv w' (path e') = Some (Addr l, Some (leaseID e))
         \<and> (suffix '':0'' (fst (the (kv w' (path e')))) \<longrightarrow> suffix '':0'' (Addr l))"
    by (rule NewExportedPort_success [OF a]) simp
next
  assume "NewExportedPort_legacy net self v network ip service = (v', self', r', None)"
  then show "\<exists>dir val. last (trace v') = AddChildReq dir val 0"
    by (auto simp: NewExportedPort_legacy_def Let_def split: sum.splits option.splits)
next
  assume "NewExportedPort_legacy net self v network ip service = (v', self', r', None)"
  then show "\<forall>k. kv v' k \<noteq> kv v k \<longrightarrow> (\<exists>val. kv v' k = Some (val, None))"
    by (auto simp: NewExportedPort_legacy_def Let_def split: sum.splits option.splits if_splits)
qed

theorem export_publishes_listener_address_witness:
  "NewExportedPort example_net (leased_exporter store_ok) empty_world ''tcp'' ''127.0.0.1'' ''foo'' =
     (\<lparr>trace = [ListenReq ''tcp'' ''127.0.0.1:0'',
                PutReq ''/ns/service/foo/              2a'' ''127.0.0.1:49152'' 42],
       kv = [''/ns/service/foo/              2a'' \<mapsto> (''127.0.0.1:49152'', Some 42)],
       sockets = [\<lparr>fd = 0, Addr = ''127.0.0.1:49152''\<rparr>], drained = []\<rparr>,
      \<lparr>conn = store_ok, path = ''/ns/service/foo/              2a'', leaseID = 42,
       keepaliveResponses = Some 0\<rparr>,
      Some \<lparr>fd = 0, Addr = ''127.0.0.1:49152''\<rparr>, None)
   \<and> Listen example_net empty_world ''tcp'' (listen_address example_net ''127.0.0.1'') =
       Inr \<lparr>fd = 0, Addr = ''127.0.0.1:49152''\<rparr>
   \<and> \<not> suffix '':0'' ''127.0.0.1:49152''
   \<and> snd (snd (snd (NewExportedPort_legacy example_net \<lparr>conn_legacy = legacy_ok, path_legacy = []\<rparr>
         empty_world ''tcp'' ''127.0.0.1'' ''foo''))) = None
   \<and> kv (fst (NewExportedPort_legacy example_net \<lparr>conn_legacy = legacy_ok, path_legacy = []\<rparr>
         empty_world ''tcp'' ''127.0.0.1'' ''foo'')) ''/ns/service/foo/1'' = Some (''127.0.0.1:0'', None)"
proof -
  note t = export_publishes_listener_address [where net = example_net and ip = "''127.0.0.1''"
      and w = empty_world and e = "leased_exporter store_ok" and network = "''tcp''"
      and service = "''foo''" and self = "\<lparr>conn_legacy = legacy_ok, path_legacy = []\<rparr>"
      and v = empty_world]
  have s: "\<not> suffix '':0'' ''127.0.0.1:49152''"
    by (simp add: suffix_def)
  show ?thesis
    using t s
    by (simp add: example_export_bare example_export_legacy_bare example_Listen_def
          listen_address_def split_example_bare join_example)
qed

text \<open>
  With the legacy variant and the bare host \<open>127.0.0.1\<close>, the export succeeds, the listener
  is bound to \<open>127.0.0.1:49152\<close>, and the value written is \<open>127.0.0.1:0\<close>, attached to
  no lease.
\<close>

theorem legacy_publishes_port_zero_counterexample:
  "NewExportedPort_legacy example_net \<lparr>conn_legacy = legacy_ok, path_legacy = []\<rparr> empty_world
       ''tcp'' ''127.0.0.1'' ''foo'' =
     (\<lparr>trace = [ListenReq ''tcp'' ''127.0.0.1:0'', AddChildReq ''/ns/service/foo'' ''127.0.0.1:0'' 0],
       kv = [''/ns/service/foo/1'' \<mapsto> (''127.0.0.1:0'', None)],
       sockets = [\<lparr>fd = 0, Addr = ''127.0.0.1:49152''\<rparr>], drained = []\<rparr>,
      \<lparr>conn_legacy = legacy_ok, path_legacy = ''/ns/service/foo/1''\<rparr>,
      Some \<lparr>fd = 0, Addr = ''127.0.0.1:49152''\<rparr>, None)
   \<and> suffix '':0'' ''127.0.0.1:0''
   \<and> ''127.0.0.1:0'' \<noteq> ''127.0.0.1:49152''"
  by (simp add: example_export_legacy_bare suffix_def)




section \<open>Unexporting\<close>

text \<open>
  Claim C6: \<open>UnexportPort\<close> with an empty last path returns success and changes nothing,
  so no request is sent. With a path, it sends exactly one request, the delete of that
  path, and returns what the store answers; when the store reports success the key is gone
  and every other key is as before. The exporter (its lease and keepalive stream), the
  streams being drained and the sockets are untouched, and the request is no lease
  request. The legacy variant does the same with its own delete.
\<close>

theorem unexport_deletes_last_path:
  "(path e = [] \<longrightarrow> UnexportPort e w = (w, e, None))
   \<and> (path e \<noteq> [] \<and> UnexportPort e w = (w', e', r) \<longrightarrow>
        e' = e \<and> new_requests w w' = [DeleteReq (path e)] \<and> r = Delete (conn e) w (path e)
        \<and> \<not> is_lease_request (DeleteReq (path e))
        \<and> (r = None \<longrightarrow> kv w' = (kv w)(path e := None))
        \<and> (r \<noteq> None \<longrightarrow> kv w' = kv w)
        \<and> sockets w' = sockets w \<and> drained w' = drained w)
   \<and> (path_legacy self = [] \<longrightarrow> UnexportPort_legacy self v = (v, self, None))
   \<and> (path_legacy self \<noteq> [] \<and> UnexportPort_legacy self v = (v', self', r') \<longrightarrow>
        self' = self \<and> new_requests v v' = [DeleteLegacyReq (path_legacy self) False]
        \<and> r' = Delete_legacy (conn_legacy self) v (path_legacy self) False
        \<and> (r' = None \<longrightarrow> kv v' = (kv v)(path_legacy self := None))
        \<and> (r' \<noteq> None \<longrightarrow> kv v' = kv v)
        \<and> sockets v' = sockets v \<and> drained v' = drained v)"
proof -
  have a: "UnexportPort e w = (w, e, None)" if "path e = []"
    using that by (simp add: UnexportPort_def)
  have b: "e' = e \<and> new_requests w w' = [DeleteReq (path e)] \<and> r = Delete (conn e) w (path e)
        \<and> \<not> is_lease_request (DeleteReq (path e))
        \<and> (r = None \<longrightarrow> kv w' = (kv w)(path e := None))
        \<and> (r \<noteq> None \<longrightarrow> kv w' = kv w)
        \<and> sockets w' = sockets w \<and> drained w' = drained w"
    if "path e \<noteq> []" "UnexportPort e w = (w', e', r)"
    using that by (auto simp: UnexportPort_def Let_def split: option.splits)
  have c: "UnexportPort_legacy self v = (v, self, None)" if "path_legacy self = []"
    using that by (simp add: UnexportPort_legacy_def)
  have d: "self' = self \<and> new_requests v v' = [DeleteLegacyReq (path_legacy self) False]
        \<and> r' = Delete_legacy (conn_legacy self) v (path_legacy self) False
        \<and> (r' = None \<longrightarrow> kv v' = (kv v)(path_legacy self := None))
        \<and> (r' \<noteq> None \<longrightarrow> kv v' = kv v)
        \<and> sockets v' = sockets v \<and> drained v' = drained v"
    if "path_legacy self \<noteq> []" "UnexportPort_legacy self v = (v', self', r')"
    using that by (auto simp: UnexportPort_legacy_def Let_def split: option.splits)
  show ?thesis
    using a b c d by blast
qed

lemma example_unexport:
  "UnexportPort
     \<lparr>conn = store_ok, path = ''/ns/service/foo/              2a'', leaseID = 42,
       keepaliveResponses = Some 0\<rparr>
     \<lparr>trace = [ListenReq ''tcp'' ''127.0.0.1:0'',
                PutReq ''/ns/service/foo/              2a'' ''127.0.0.1:49152'' 42],
       kv = [''/ns/service/foo/              2a'' \<mapsto> (''127.0.0.1:49152'', Some 42)],
       sockets = [\<lparr>fd = 0, Addr = ''127.0.0.1:49152''\<rparr>], drained = []\<rparr> =
     (\<lparr>trace = [ListenReq ''tcp'' ''127.0.0.1:0'',
                PutReq ''/ns/service/foo/              2a'' ''127.0.0.1:49152'' 42,
                DeleteReq ''/ns/service/foo/              2a''],
       kv = Map.empty,
       sockets = [\<lparr>fd = 0, Addr = ''127.0.0.1:49152''\<rparr>], drained = []\<rparr>,
      \<lparr>conn = store_ok, path = ''/ns/service/foo/              2a'', leaseID = 42,
       keepaliveResponses = Some 0\<rparr>, None)"
  by (simp add: UnexportPort_def Let_def sent_def store_ok_def)

lemma example_unexport_legacy:
  "UnexportPort_legacy \<lparr>conn_legacy = legacy_ok, path_legacy = ''/ns/service/foo/1''\<rparr>
     \<lparr>trace = [ListenReq ''tcp'' ''127.0.0.1:0'', AddChildReq ''/ns/service/foo'' ''127.0.0.1:0'' 0],
       kv = [''/ns/service/foo/1'' \<mapsto> (''127.0.0.1:0'', None)],
       sockets = [\<lparr>fd = 0, Addr = ''127.0.0.1:49152''\<rparr>], drained = []\<rparr> =
     (\<lparr>trace = [ListenReq ''tcp'' ''127.0.0.1:0'', AddChildReq ''/ns/service/foo'' ''127.0.0.1:0'' 0,
                DeleteLegacyReq ''/ns/service/foo/1'' False],
       kv = Map.empty,
       sockets = [\<lparr>fd = 0, Addr = ''127.0.0.1:49152''\<rparr>], drained = []\<rparr>,
      \<lparr>conn_legacy = legacy_ok, path_legacy = ''/ns/service/foo/1''\<rparr>, None)"
  by (simp add: UnexportPort_legacy_def Let_def sent_def legacy_ok_def)

theorem unexport_deletes_last_path_witness:
  "path (leased_exporter store_ok) = []
   \<and> UnexportPort (leased_exporter store_ok) empty_world = (empty_world, leased_exporter store_ok, None)
   \<and> path_legacy \<lparr>conn_legacy = legacy_ok, path_legacy = []\<rparr> = []
   \<and> UnexportPort_legacy \<lparr>conn_legacy = legacy_ok, path_legacy = []\<rparr> empty_world =
       (empty_world, \<lparr>conn_legacy = legacy_ok, path_legacy = []\<rparr>, None)
   \<and> ''/ns/service/foo/              2a'' \<noteq> []
   \<and> Delete store_ok
        \<lparr>trace = [ListenReq ''tcp'' ''127.0.0.1:0'',
                   PutReq ''/ns/service/foo/              2a'' ''127.0.0.1:49152'' 42],
          kv = [''/ns/service/foo/              2a'' \<mapsto> (''127.0.0.1:49152'', Some 42)],
          sockets = [\<lparr>fd = 0, Addr = ''127.0.0.1:49152''\<rparr>], drained = []\<rparr>
        ''/ns/service/foo/              2a'' = None
   \<and> Delete_legacy legacy_ok
        \<lparr>trace = [ListenReq ''tcp'' ''127.0.0.1:0'', AddChildReq ''/ns/service/foo'' ''127.0.0.1:0'' 0],
          kv = [''/ns/service/foo/1'' \<mapsto> (''127.0.0.1:0'', None)],
          sockets = [\<lparr>fd = 0, Addr = ''127.0.0.1:49152''\<rparr>], drained = []\<rparr>
        ''/ns/service/foo/1'' False = None"
proof -
  let ?k = "''/ns/service/foo/              2a''"
  let ?e = "\<lparr>conn = store_ok, path = ?k, leaseID = 42, keepaliveResponses = Some 0\<rparr>"
  let ?w = "\<lparr>trace = [ListenReq ''tcp'' ''127.0.0.1:0'', PutReq ?k ''127.0.0.1:49152'' 42],
       kv = [?k \<mapsto> (''127.0.0.1:49152'', Some 42)],
       sockets = [\<lparr>fd = 0, Addr = ''127.0.0.1:49152''\<rparr>], drained = []\<rparr>"
  let ?w' = "\<lparr>trace = [ListenReq ''tcp'' ''127.0.0.1:0'', PutReq ?k ''127.0.0.1:49152'' 42, DeleteReq ?k],
       kv = Map.empty,
       sockets = [\<lparr>fd = 0, Addr = ''127.0.0.1:49152''\<rparr>], drained = []\<rparr>"
  let ?s = "\<lparr>conn_legacy = legacy_ok, path_legacy = ''/ns/service/foo/1''\<rparr>"
  let ?v = "\<lparr>trace = [ListenReq ''tcp'' ''127.0.0.1:0'', AddChildReq ''/ns/service/foo'' ''127.0.0.1:0'' 0],
       kv = [''/ns/service/foo/1'' \<mapsto> (''127.0.0.1:0'', None)],
       sockets = [\<lparr>fd = 0, Addr = ''127.0.0.1:49152''\<rparr>], drained = []\<rparr>"
  let ?v' = "\<lparr>trace = [ListenReq ''tcp'' ''127.0.0.1:0'', AddChildReq ''/ns/service/foo'' ''127.0.0.1:0'' 0,
                DeleteLegacyReq ''/ns/service/foo/1'' False],
       kv = Map.empty,
       sockets = [\<lparr>fd = 0, Addr = ''127.0.0.1:49152''\<rparr>], drained = []\<rparr>"
  note t1 = unexport_deletes_last_path [where e = "leased_exporter store_ok" and w = empty_world
      and self = "\<lparr>conn_legacy = legacy_ok, path_legacy = []\<rparr>" and v = empty_world]
  note t2 = unexport_deletes_last_path [where e = ?e and w = ?w and w' = ?w' and e' = ?e
      and r = None and self = ?s and v = ?v and v' = ?v' and self' = ?s and r' = None]
  show ?thesis
    using t1 t2 by (simp add: example_unexport example_unexport_legacy)
qed





section \<open>Failed exports\<close>

text \<open>
  Claim C7: the last path changes only when the export succeeds as a whole. When the
  listen fails or the write fails, the call returns that error and the exporter is as it
  was; when the path differs afterwards, both have succeeded. The same holds for the
  legacy variant, which takes the path from the reply of the store.
\<close>

theorem path_changes_only_on_success:
  "(NewExportedPort net e w network ip service = (w', e', r, err) \<longrightarrow>
      (err \<noteq> None \<longrightarrow> e' = e)
      \<and> (\<forall>x. Listen net w network (listen_address net ip) = Inl x \<longrightarrow> err = Some x)
      \<and> (\<forall>l x. Listen net w network (listen_address net ip) = Inr l
            \<and> Put (conn e) ((sent w (ListenReq network (listen_address net ip)))\<lparr>sockets := sockets w @ [l]\<rparr>)
                 (service_path service (leaseID e)) (Addr l) (leaseID e) = Some x \<longrightarrow> err = Some x)
      \<and> (path e' \<noteq> path e \<longrightarrow> err = None
            \<and> (\<exists>l. Listen net w network (listen_address net ip) = Inr l \<and> r = Some l
                 \<and> last (trace w') = PutReq (path e') (Addr l) (leaseID e))))
   \<and> (NewExportedPort_legacy net self v network ip service = (v', self', r', err') \<longrightarrow>
      (err' \<noteq> None \<longrightarrow> self' = self)
      \<and> (\<forall>x. Listen net v network (listen_address_legacy net ip) = Inl x \<longrightarrow> err' = Some x)
      \<and> (\<forall>l x. Listen net v network (listen_address_legacy net ip) = Inr l
            \<and> AddChild (conn_legacy self)
                 ((sent v (ListenReq network (listen_address_legacy net ip)))\<lparr>sockets := sockets v @ [l]\<rparr>)
                 (''/ns/service/'' @ service) (listen_address_legacy net ip) 0 = Inl x \<longrightarrow> err' = Some x)
      \<and> (path_legacy self' \<noteq> path_legacy self \<longrightarrow> err' = None
            \<and> (\<exists>l. Listen net v network (listen_address_legacy net ip) = Inr l \<and> r' = Some l)))"
proof -
  have a: "(err \<noteq> None \<longrightarrow> e' = e)
      \<and> (\<forall>x. Listen net w network (listen_address net ip) = Inl x \<longrightarrow> err = Some x)
      \<and> (\<forall>l x. Listen net w network (listen_address net ip) = Inr l
            \<and> Put (conn e) ((sent w (ListenReq network (listen_address net ip)))\<lparr>sockets := sockets w @ [l]\<rparr>)
                 (service_path service (leaseID e)) (Addr l) (leaseID e) = Some x \<longrightarrow> err = Some x)
      \<and> (path e' \<noteq> path e \<longrightarrow> err = None
            \<and> (\<exists>l. Listen net w network (listen_address net ip) = Inr l \<and> r = Some l
                 \<and> last (trace w') = PutReq (path e') (Addr l) (leaseID e)))"
    if "NewExportedPort net e w network ip service = (w', e', r, err)"
    using that by (auto simp: NewExportedPort_def Let_def split: sum.splits option.splits)
  have b: "(err' \<noteq> None \<longrightarrow> self' = self)
      \<and> (\<forall>x. Listen net v network (listen_address_legacy net ip) = Inl x \<longrightarrow> err' = Some x)
      \<and> (\<forall>l x. Listen net v network (listen_address_legacy net ip) = Inr l
            \<and> AddChild (conn_legacy self)
                 ((sent v (ListenReq network (listen_address_legacy net ip)))\<lparr>sockets := sockets v @ [l]\<rparr>)
                 (''/ns/service/'' @ service) (listen_address_legacy net ip) 0 = Inl x \<longrightarrow> err' = Some x)
      \<and> (path_legacy self' \<noteq> path_legacy self \<longrightarrow> err' = None
            \<and> (\<exists>l. Listen net v network (listen_address_legacy net ip) = Inr l \<and> r' = Some l))"
    if "NewExportedPort_legacy net self v network ip service = (v', self', r', err')"
    using that by (auto simp: NewExportedPort_legacy_def Let_def split: sum.splits option.splits)
  show ?thesis
    using a b by blast
qed

lemma store_no_put_simps [simp]:
  "Put store_no_put w k v l = Some (Error ''etcdserver: requested lease not found'')"
  by (simp add: store_no_put_def store_ok_def)

lemma legacy_down_simps [simp]:
  "AddChild legacy_down w d v t = Inl (Error ''connection refused'')"
  "Delete_legacy legacy_down w k r = Some (Error ''connection refused'')"
  by (simp_all add: legacy_down_def)

lemma listen_address_examples:
  "listen_address example_net ''127.0.0.1'' = ''127.0.0.1:0''"
  "listen_address example_net ''127.0.0.1:9000'' = ''127.0.0.1:9000''"
  "listen_address_legacy example_net ''127.0.0.1'' = ''127.0.0.1:0''"
  "listen_address_legacy example_net ''127.0.0.1:9000'' = ''127.0.0.1:0''"
  by (simp_all add: listen_address_def listen_address_legacy_def split_example_bare
        split_example_pair join_example)

lemma example_Listen_simps:
  "example_Listen empty_world ''tcp'' ''127.0.0.1:0'' = Inr \<lparr>fd = 0, Addr = ''127.0.0.1:49152''\<rparr>"
  "example_Listen empty_world ''tcp'' ''127.0.0.1:9000'' = Inr \<lparr>fd = 0, Addr = ''127.0.0.1:9000''\<rparr>"
  "example_Listen empty_world ''udp'' ''127.0.0.1:0'' = Inl (Error ''unknown network'')"
  by (simp_all add: example_Listen_def)

lemma example_export_put_fails:
  "NewExportedPort example_net (leased_exporter store_no_put) empty_world ''tcp'' ''127.0.0.1'' ''foo'' =
     (\<lparr>trace = [ListenReq ''tcp'' ''127.0.0.1:0'',
                PutReq ''/ns/service/foo/              2a'' ''127.0.0.1:49152'' 42],
       kv = Map.empty, sockets = [\<lparr>fd = 0, Addr = ''127.0.0.1:49152''\<rparr>], drained = []\<rparr>,
      leased_exporter store_no_put, None, Some (Error ''etcdserver: requested lease not found''))"
  by (simp add: NewExportedPort_def Let_def sent_def example_simps)

lemma example_export_listen_fails:
  "NewExportedPort example_net (leased_exporter store_ok) empty_world ''udp'' ''127.0.0.1'' ''foo'' =
     (\<lparr>trace = [ListenReq ''udp'' ''127.0.0.1:0''], kv = Map.empty, sockets = [], drained = []\<rparr>,
      leased_exporter store_ok, None, Some (Error ''unknown network''))"
  by (simp add: NewExportedPort_def Let_def sent_def example_simps)

lemma example_export_legacy_write_fails:
  "NewExportedPort_legacy example_net \<lparr>conn_legacy = legacy_down, path_legacy = []\<rparr> empty_world
       ''tcp'' ''127.0.0.1'' ''foo'' =
     (\<lparr>trace = [ListenReq ''tcp'' ''127.0.0.1:0'', AddChildReq ''/ns/service/foo'' ''127.0.0.1:0'' 0],
       kv = Map.empty, sockets = [\<lparr>fd = 0, Addr = ''127.0.0.1:49152''\<rparr>], drained = []\<rparr>,
      \<lparr>conn_legacy = legacy_down, path_legacy = []\<rparr>, None, Some (Error ''connection refused''))"
  by (simp add: NewExportedPort_legacy_def Let_def sent_def example_simps)

lemma example_export_legacy_listen_fails:
  "NewExportedPort_legacy example_net \<lparr>conn_legacy = legacy_ok, path_legacy = []\<rparr> empty_world
       ''udp'' ''127.0.0.1'' ''foo'' =
     (\<lparr>trace = [ListenReq ''udp'' ''127.0.0.1:0''], kv = Map.empty, sockets = [], drained = []\<rparr>,
      \<lparr>conn_legacy = legacy_ok, path_legacy = []\<rparr>, None, Some (Error ''unknown network''))"
  by (simp add: NewExportedPort_legacy_def Let_def sent_def example_simps)

theorem path_changes_only_on_success_witness:
  "NewExportedPort example_net (leased_exporter store_ok) empty_world ''udp'' ''127.0.0.1'' ''foo'' =
     (\<lparr>trace = [ListenReq ''udp'' ''127.0.0.1:0''], kv = Map.empty, sockets = [], drained = []\<rparr>,
      leased_exporter store_ok, None, Some (Error ''unknown network''))
   \<and> Listen example_net empty_world ''udp'' (listen_address example_net ''127.0.0.1'') =
       Inl (Error ''unknown network'')
   \<and> NewExportedPort example_net (leased_exporter store_no_put) empty_world ''tcp'' ''127.0.0.1'' ''foo'' =
     (\<lparr>trace = [ListenReq ''tcp'' ''127.0.0.1:0'',
                PutReq ''/ns/service/foo/              2a'' ''127.0.0.1:49152'' 42],
       kv = Map.empty, sockets = [\<lparr>fd = 0, Addr = ''127.0.0.1:49152''\<rparr>], drained = []\<rparr>,
      leased_exporter store_no_put, None, Some (Error ''etcdserver: requested lease not found''))
   \<and> Listen example_net empty_world ''tcp'' (listen_address example_net ''127.0.0.1'') =
       Inr \<lparr>fd = 0, Addr = ''127.0.0.1:49152''\<rparr>
   \<and> path (fst (snd (NewExportedPort example_net (leased_exporter store_ok) empty_world
         ''tcp'' ''127.0.0.1'' ''foo''))) \<noteq> path (leased_exporter store_ok)
   \<and> snd (snd (snd (NewExportedPort example_net (leased_exporter store_ok) empty_world
         ''tcp'' ''127.0.0.1'' ''foo''))) = None
   \<and> NewExportedPort_legacy example_net \<lparr>conn_legacy = legacy_ok, path_legacy = []\<rparr> empty_world
       ''udp'' ''127.0.0.1'' ''foo'' =
     (\<lparr>trace = [ListenReq ''udp'' ''127.0.0.1:0''], kv = Map.empty, sockets = [], drained = []\<rparr>,
      \<lparr>conn_legacy = legacy_ok, path_legacy = []\<rparr>, None, Some (Error ''unknown network''))
   \<and> NewExportedPort_legacy example_net \<lparr>conn_legacy = legacy_down, path_legacy = []\<rparr> empty_world
       ''tcp'' ''127.0.0.1'' ''foo'' =
     (\<lparr>trace = [ListenReq ''tcp'' ''127.0.0.1:0'', AddChildReq ''/ns/service/foo'' ''127.0.0.1:0'' 0],
       kv = Map.empty, sockets = [\<lparr>fd = 0, Addr = ''127.0.0.1:49152''\<rparr>], drained = []\<rparr>,
      \<lparr>conn_legacy = legacy_down, path_legacy = []\<rparr>, None, Some (Error ''connection refused''))
   \<and> path_legacy (fst (snd (NewExportedPort_legacy example_net
         \<lparr>conn_legacy = legacy_ok, path_legacy = []\<rparr> empty_world ''tcp'' ''127.0.0.1'' ''foo''))) \<noteq> []
   \<and> snd (snd (snd (NewExportedPort_legacy example_net
         \<lparr>conn_legacy = legacy_ok, path_legacy = []\<rparr> empty_world ''tcp'' ''127.0.0.1'' ''foo''))) = None"
proof -
  let ?k = "''/ns/service/foo/              2a''"
  let ?l = "\<lparr>fd = 0, Addr = ''127.0.0.1:49152''\<rparr>"
  let ?s = "\<lparr>conn_legacy = legacy_ok, path_legacy = []\<rparr>"
  let ?d = "\<lparr>conn_legacy = legacy_down, path_legacy = []\<rparr>"
  note t1 = path_changes_only_on_success [where net = example_net and e = "leased_exporter store_ok"
      and w = empty_world and network = "''udp''" and ip = "''127.0.0.1''" and service = "''foo''"
      and w' = "\<lparr>trace = [ListenReq ''udp'' ''127.0.0.1:0''], kv = Map.empty, sockets = [], drained = []\<rparr>"
      and e' = "leased_exporter store_ok" and r = None and err = "Some (Error ''unknown network'')"
      and self = ?s and v = empty_world
      and v' = "\<lparr>trace = [ListenReq ''udp'' ''127.0.0.1:0''], kv = Map.empty, sockets = [], drained = []\<rparr>"
      and self' = ?s and r' = None and err' = "Some (Error ''unknown network'')"]
  note t2 = path_changes_only_on_success [where net = example_net and e = "leased_exporter store_no_put"
      and w = empty_world and network = "''tcp''" and ip = "''127.0.0.1''" and service = "''foo''"
      and w' = "\<lparr>trace = [ListenReq ''tcp'' ''127.0.0.1:0'', PutReq ?k ''127.0.0.1:49152'' 42],
                 kv = Map.empty, sockets = [?l], drained = []\<rparr>"
      and e' = "leased_exporter store_no_put" and r = None
      and err = "Some (Error ''etcdserver: requested lease not found'')"
      and self = ?d and v = empty_world
      and v' = "\<lparr>trace = [ListenReq ''tcp'' ''127.0.0.1:0'', AddChildReq ''/ns/service/foo'' ''127.0.0.1:0'' 0],
                 kv = Map.empty, sockets = [?l], drained = []\<rparr>"
      and self' = ?d and r' = None and err' = "Some (Error ''connection refused'')"]
  note t3 = path_changes_only_on_success [where net = example_net and e = "leased_exporter store_ok"
      and w = empty_world and network = "''tcp''" and ip = "''127.0.0.1''" and service = "''foo''"
      and w' = "\<lparr>trace = [ListenReq ''tcp'' ''127.0.0.1:0'', PutReq ?k ''127.0.0.1:49152'' 42],
                 kv = [?k \<mapsto> (''127.0.0.1:49152'', Some 42)], sockets = [?l], drained = []\<rparr>"
      and e' = "\<lparr>conn = store_ok, path = ?k, leaseID = 42, keepaliveResponses = Some 0\<rparr>"
      and r = "Some ?l" and err = None
      and self = ?s and v = empty_world
      and v' = "\<lparr>trace = [ListenReq ''tcp'' ''127.0.0.1:0'', AddChildReq ''/ns/service/foo'' ''127.0.0.1:0'' 0],
                 kv = [''/ns/service/foo/1'' \<mapsto> (''127.0.0.1:0'', None)], sockets = [?l], drained = []\<rparr>"
      and self' = "\<lparr>conn_legacy = legacy_ok, path_legacy = ''/ns/service/foo/1''\<rparr>"
      and r' = "Some ?l" and err' = None]
  have c1: "Listen example_net empty_world ''udp'' (listen_address example_net ''127.0.0.1'') =
       Inl (Error ''unknown network'')"
    by (simp add: listen_address_examples example_Listen_simps)
  have c2: "path (leased_exporter store_no_put) = []"
    using t2 by (simp add: example_export_put_fails example_export_legacy_write_fails)
  have c3: "Listen example_net empty_world ''tcp'' (listen_address example_net ''127.0.0.1'') =
       Inr \<lparr>fd = 0, Addr = ''127.0.0.1:49152''\<rparr>"
    using t3 by (simp add: example_export_bare example_export_legacy_bare)
  have c4: "leased_exporter store_ok = leased_exporter store_ok"
    using t1 by (simp add: example_export_listen_fails example_export_legacy_listen_fails)
  show ?thesis
    using c1 c2 c3 c4
    by (simp add: example_export_bare example_export_legacy_bare example_export_put_fails
          example_export_listen_fails example_export_legacy_write_fails
          example_export_legacy_listen_fails)
qed

text \<open>
  Claim C8: when the bind succeeds and the store write fails, the call returns an error
  and no listener, and the socket has been closed. The code returns \<open>nil, err\<close> without
  closing the listener: with a store that refuses the write, the socket bound by the call
  is still open afterwards, and the caller has no handle to close it. The legacy variant
  does the same.
\<close>

theorem failed_write_leaves_socket_open:
  "snd (NewExportedPort example_net (leased_exporter store_no_put) empty_world ''tcp'' ''127.0.0.1'' ''foo'') =
     (leased_exporter store_no_put, None, Some (Error ''etcdserver: requested lease not found''))
   \<and> sockets (fst (NewExportedPort example_net (leased_exporter store_no_put) empty_world
        ''tcp'' ''127.0.0.1'' ''foo'')) = [\<lparr>fd = 0, Addr = ''127.0.0.1:49152''\<rparr>]
   \<and> sockets empty_world = []
   \<and> snd (NewExportedPort_legacy example_net \<lparr>conn_legacy = legacy_down, path_legacy = []\<rparr> empty_world
        ''tcp'' ''127.0.0.1'' ''foo'') =
     (\<lparr>conn_legacy = legacy_down, path_legacy = []\<rparr>, None, Some (Error ''connection refused''))
   \<and> sockets (fst (NewExportedPort_legacy example_net \<lparr>conn_legacy = legacy_down, path_legacy = []\<rparr>
        empty_world ''tcp'' ''127.0.0.1'' ''foo'')) = [\<lparr>fd = 0, Addr = ''127.0.0.1:49152''\<rparr>]"
  by (simp add: example_export_put_fails example_export_legacy_write_fails)

section \<open>The lease of an exporter\<close>

lemma put_leases_append [simp]:
  "put_leases (xs @ ys) = put_leases xs @ put_leases ys"
  by (induction xs rule: put_leases.induct) simp_all

text \<open>
  What one operation keeps: the lease identifier and the keepalive stream of the
  exporter and the streams being drained; the trace only grows, by requests that are no
  lease requests, and every write among them carries the lease of the exporter.
\<close>

lemma NewExportedPort_keeps_lease:
  assumes "NewExportedPort net e w network ip service = (w', e', r, err)"
  shows "leaseID e' = leaseID e \<and> keepaliveResponses e' = keepaliveResponses e
     \<and> drained w' = drained w
     \<and> (\<exists>rs. trace w' = trace w @ rs \<and> list_all (\<lambda>l. l = leaseID e) (put_leases rs)
           \<and> list_all (\<lambda>q. \<not> is_lease_request q) rs)"
  using assms
  by (auto simp: NewExportedPort_def Let_def split: sum.splits option.splits)

lemma UnexportPort_keeps_lease:
  assumes "UnexportPort e w = (w', e', err)"
  shows "leaseID e' = leaseID e \<and> keepaliveResponses e' = keepaliveResponses e
     \<and> drained w' = drained w
     \<and> (\<exists>rs. trace w' = trace w @ rs \<and> list_all (\<lambda>l. l = leaseID e) (put_leases rs)
           \<and> list_all (\<lambda>q. \<not> is_lease_request q) rs)"
  using assms
  by (auto simp: UnexportPort_def Let_def split: if_splits option.splits)

lemma NewExportedTLSPort_keeps_lease:
  assumes "NewExportedTLSPort net e w network ip service config = (w', e', r, err)"
  shows "leaseID e' = leaseID e \<and> keepaliveResponses e' = keepaliveResponses e
     \<and> drained w' = drained w
     \<and> (\<exists>rs. trace w' = trace w @ rs \<and> list_all (\<lambda>l. l = leaseID e) (put_leases rs)
           \<and> list_all (\<lambda>q. \<not> is_lease_request q) rs)"
proof -
  obtain w1 e1 r1 err1 where p: "NewExportedPort net e w network ip service = (w1, e1, r1, err1)"
    by (metis prod.collapse)
  with assms have "w' = w1" "e' = e1"
    by (auto simp: NewExportedTLSPort_def split: option.splits)
  with NewExportedPort_keeps_lease [OF p] show ?thesis
    by simp
qed

lemma ListenAndServeNamedHTTP_keeps_lease:
  assumes "ListenAndServeNamedHTTP net srv e w servicename addr handler = (w', e', out)"
  shows "leaseID e' = leaseID e \<and> keepaliveResponses e' = keepaliveResponses e
     \<and> drained w' = drained w
     \<and> (\<exists>rs. trace w' = trace w @ rs \<and> list_all (\<lambda>l. l = leaseID e) (put_leases rs)
           \<and> list_all (\<lambda>q. \<not> is_lease_request q) rs)"
proof -
  obtain w1 e1 r1 err1 where p: "NewExportedPort net e w ''tcp'' addr servicename = (w1, e1, r1, err1)"
    by (metis prod.collapse)
  with assms have "trace w' = trace w1" "drained w' = drained w1" "e' = e1"
    by (auto simp: ListenAndServeNamedHTTP_def split: option.splits serve_outcome.splits)
  with NewExportedPort_keeps_lease [OF p] show ?thesis
    by simp
qed

lemma perform_keeps_lease:
  assumes "perform net srv x e w = (w', e', b)"
  shows "leaseID e' = leaseID e \<and> keepaliveResponses e' = keepaliveResponses e
     \<and> drained w' = drained w
     \<and> (\<exists>rs. trace w' = trace w @ rs \<and> list_all (\<lambda>l. l = leaseID e) (put_leases rs)
           \<and> list_all (\<lambda>q. \<not> is_lease_request q) rs)"
proof (cases x)
  case (Export network ip service)
  with assms show ?thesis
    by (auto split: prod.splits dest!: NewExportedPort_keeps_lease)
next
  case (ExportTLS network ip service config)
  with assms show ?thesis
    by (auto split: prod.splits dest!: NewExportedTLSPort_keeps_lease)
next
  case (ServeHTTP servicename addr handler)
  with assms show ?thesis
    by (auto split: prod.splits serve_outcome.splits dest!: ListenAndServeNamedHTTP_keeps_lease)
next
  case Unexport
  with assms show ?thesis
    by (auto split: prod.splits dest!: UnexportPort_keeps_lease)
qed

lemma run_ops_keeps_lease:
  "run_ops net srv e w xs = (w', e') \<Longrightarrow>
   leaseID e' = leaseID e \<and> keepaliveResponses e' = keepaliveResponses e
     \<and> drained w' = drained w
     \<and> (\<exists>rs. trace w' = trace w @ rs \<and> list_all (\<lambda>l. l = leaseID e) (put_leases rs)
           \<and> list_all (\<lambda>q. \<not> is_lease_request q) rs)"
proof (induction xs arbitrary: e w)
  case Nil
  then show ?case by simp
next
  case (Cons x xs)
  obtain w1 e1 b where p: "perform net srv x e w = (w1, e1, b)"
    by (metis prod.collapse)
  note k = perform_keeps_lease [OF p]
  show ?case
  proof (cases b)
    case True
    with Cons.prems p have "run_ops net srv e1 w1 xs = (w', e')"
      by simp
    from Cons.IH [OF this] k show ?thesis
      by auto
  next
    case False
    with Cons.prems p have "w' = w1" "e' = e1"
      by simp_all
    with k show ?thesis
      by simp
  qed
qed

text \<open>
  Claim C9: the lease identifier of an exporter is the one the store granted when the
  exporter was created, and no sequence of exports, TLS exports, HTTP serves and unexports
  changes it (nor the keepalive stream); none of them sends a lease request, and every
  write they send carries that lease.
\<close>

theorem lease_assigned_once:
  "(NewExporterFromClient w0 client ttl = (w, Some e, None) \<longrightarrow>
      Grant client w0 ttl = Inr (leaseID e))
   \<and> (NewExporter NewFromURL w0 url ttl = (w, Some e, None) \<longrightarrow>
      (\<exists>c. NewFromURL url = Inr c \<and> Grant c w0 ttl = Inr (leaseID e)))
   \<and> (NewFromDefault DefaultEtcdClient w0 ttl = (w, Some e, None) \<longrightarrow>
      (\<exists>c. DefaultEtcdClient = Inr c \<and> Grant c w0 ttl = Inr (leaseID e)))
   \<and> (run_ops net srv e w xs = (w', e') \<longrightarrow>
      leaseID e' = leaseID e \<and> keepaliveResponses e' = keepaliveResponses e
      \<and> drained w' = drained w
      \<and> list_all (\<lambda>l. l = leaseID e) (put_leases (new_requests w w'))
      \<and> list_all (\<lambda>q. \<not> is_lease_request q) (new_requests w w'))"
proof -
  have a: "Grant client w0 ttl = Inr (leaseID e)"
    if "NewExporterFromClient w0 client ttl = (w, Some e, None)"
    using that
    by (auto simp: NewExporterFromClient_def initLease_def new_ServiceExporter_def Let_def
          split: sum.splits prod.splits option.splits)
  have b: "\<exists>c. NewFromURL url = Inr c \<and> Grant c w0 ttl = Inr (leaseID e)"
    if "NewExporter NewFromURL w0 url ttl = (w, Some e, None)"
    using that
    by (auto simp: NewExporter_def initLease_def new_ServiceExporter_def Let_def
          split: sum.splits prod.splits option.splits)
  have c: "\<exists>c. DefaultEtcdClient = Inr c \<and> Grant c w0 ttl = Inr (leaseID e)"
    if "NewFromDefault DefaultEtcdClient w0 ttl = (w, Some e, None)"
    using that
    by (auto simp: NewFromDefault_def initLease_def new_ServiceExporter_def Let_def
          split: sum.splits prod.splits option.splits)
  have d: "leaseID e' = leaseID e \<and> keepaliveResponses e' = keepaliveResponses e
      \<and> drained w' = drained w
      \<and> list_all (\<lambda>l. l = leaseID e) (put_leases (new_requests w w'))
      \<and> list_all (\<lambda>q. \<not> is_lease_request q) (new_requests w w')"
    if "run_ops net srv e w xs = (w', e')"
    using run_ops_keeps_lease [OF that] by auto
  show ?thesis
    using a b c d by blast
qed

lemma example_run:
  "trace (fst (run_ops example_net (\<lambda>w l h. Returns (Error ''closed''))
       \<lparr>conn = store_ok, path = [], leaseID = 42, keepaliveResponses = Some 0\<rparr>
       \<lparr>trace = [GrantReq 10, KeepAliveReq 42], kv = Map.empty, sockets = [], drained = [Some 0]\<rparr>
       [Export ''tcp'' ''127.0.0.1'' ''foo'', ExportTLS ''tcp'' ''127.0.0.1:9000'' ''bar'' (),
        ServeHTTP ''web'' ''127.0.0.1'' (), Unexport])) =
     [GrantReq 10, KeepAliveReq 42,
      ListenReq ''tcp'' ''127.0.0.1:0'',
      PutReq ''/ns/service/foo/              2a'' ''127.0.0.1:49152'' 42,
      ListenReq ''tcp'' ''127.0.0.1:9000'',
      PutReq ''/ns/service/bar/              2a'' ''127.0.0.1:9000'' 42,
      ListenReq ''tcp'' ''127.0.0.1:0'',
      PutReq ''/ns/service/web/              2a'' ''127.0.0.1:49153'' 42,
      DeleteReq ''/ns/service/web/              2a'']"
  "snd (run_ops example_net (\<lambda>w l h. Returns (Error ''closed''))
       \<lparr>conn = store_ok, path = [], leaseID = 42, keepaliveResponses = Some 0\<rparr>
       \<lparr>trace = [GrantReq 10, KeepAliveReq 42], kv = Map.empty, sockets = [], drained = [Some 0]\<rparr>
       [Export ''tcp'' ''127.0.0.1'' ''foo'', ExportTLS ''tcp'' ''127.0.0.1:9000'' ''bar'' (),
        ServeHTTP ''web'' ''127.0.0.1'' (), Unexport]) =
     \<lparr>conn = store_ok, path = ''/ns/service/web/              2a'', leaseID = 42,
       keepaliveResponses = Some 0\<rparr>"
  by (simp_all add: NewExportedPort_def NewExportedTLSPort_def ListenAndServeNamedHTTP_def
        UnexportPort_def Let_def sent_def listen_address_def split_example_bare split_example_pair
        join_example example_Listen_def service_path_def fmt_16x_42)

theorem lease_assigned_once_witness:
  "NewExporterFromClient empty_world store_ok 10 =
     (\<lparr>trace = [GrantReq 10, KeepAliveReq 42], kv = Map.empty, sockets = [], drained = [Some 0]\<rparr>,
      Some \<lparr>conn = store_ok, path = [], leaseID = 42, keepaliveResponses = Some 0\<rparr>, None)
   \<and> Grant store_ok empty_world 10 = Inr 42
   \<and> leaseID (snd (run_ops example_net (\<lambda>w l h. Returns (Error ''closed''))
       \<lparr>conn = store_ok, path = [], leaseID = 42, keepaliveResponses = Some 0\<rparr>
       \<lparr>trace = [GrantReq 10, KeepAliveReq 42], kv = Map.empty, sockets = [], drained = [Some 0]\<rparr>
       [Export ''tcp'' ''127.0.0.1'' ''foo'', ExportTLS ''tcp'' ''127.0.0.1:9000'' ''bar'' (),
        ServeHTTP ''web'' ''127.0.0.1'' (), Unexport])) = 42
   \<and> put_leases (new_requests
       \<lparr>trace = [GrantReq 10, KeepAliveReq 42], kv = Map.empty, sockets = [], drained = [Some 0]\<rparr>
       (fst (run_ops example_net (\<lambda>w l h. Returns (Error ''closed''))
         \<lparr>conn = store_ok, path = [], leaseID = 42, keepaliveResponses = Some 0\<rparr>
         \<lparr>trace = [GrantReq 10, KeepAliveReq 42], kv = Map.empty, sockets = [], drained = [Some 0]\<rparr>
         [Export ''tcp'' ''127.0.0.1'' ''foo'', ExportTLS ''tcp'' ''127.0.0.1:9000'' ''bar'' (),
          ServeHTTP ''web'' ''127.0.0.1'' (), Unexport]))) = [42, 42, 42]"
proof -
  let ?w = "\<lparr>trace = [GrantReq 10, KeepAliveReq 42], kv = Map.empty, sockets = [], drained = [Some 0]\<rparr>"
  let ?e = "\<lparr>conn = store_ok, path = [], leaseID = 42, keepaliveResponses = Some 0\<rparr>"
  let ?xs = "[Export ''tcp'' ''127.0.0.1'' ''foo'', ExportTLS ''tcp'' ''127.0.0.1:9000'' ''bar'' (),
        ServeHTTP ''web'' ''127.0.0.1'' (), Unexport]"
  let ?srv = "\<lambda>(w :: world) (l :: net_Listener option) (h :: unit). Returns (Error ''closed'')"
  have h: "NewExporterFromClient empty_world store_ok 10 = (?w, Some ?e, None)"
    by (simp add: NewExporterFromClient_def initLease_def new_ServiceExporter_def sent_def
          empty_world_def)
  have r: "run_ops example_net ?srv ?e ?w ?xs =
      (fst (run_ops example_net ?srv ?e ?w ?xs), snd (run_ops example_net ?srv ?e ?w ?xs))"
    by simp
  note t = lease_assigned_once [where ?w0.0 = empty_world and client = store_ok and ttl = 10
      and w = ?w and e = ?e and NewFromURL = "\<lambda>url. Inr store_ok" and url = "''http://127.0.0.1:2379''"
      and DefaultEtcdClient = "Inr store_ok" and net = example_net and srv = ?srv and xs = ?xs
      and w' = "fst (run_ops example_net ?srv ?e ?w ?xs)"
      and e' = "snd (run_ops example_net ?srv ?e ?w ?xs)"]
  from t h have g: "Grant store_ok empty_world 10 = Inr (leaseID ?e)"
    by blast
  from t r have l: "leaseID (snd (run_ops example_net ?srv ?e ?w ?xs)) = leaseID ?e"
    by blast
  have p: "put_leases (new_requests ?w (fst (run_ops example_net ?srv ?e ?w ?xs))) = [42, 42, 42]"
    by (simp only: example_run new_requests_def) simp
  show ?thesis
    using h g l p by simp
qed

end
